theory Spec2Isabelle
  imports Complex_Main "HOL-Library.Word"
begin

section \<open>Numbers\<close>

text \<open>
  The TypeScript sources compute with IEEE-754 doubles. This development idealises a
  finite double as a \<^typ>\<open>real\<close>: rounding error, overflow to an infinity and the
  32-bit storage of typed arrays are outside the model. Two places are not idealised.
  A loop of the beat parser that steps a time by the beat interval ends in doubles only
  while the step changes the time (\<open>1e17 - 0.5\<close> is \<open>1e17\<close> again), so these loops
  take the addition of doubles as a parameter. Where the source tests for a
  not-a-number explicitly (the tempo post-processing of the analysis engine), the type
  \<open>jsnum\<close> below adds that one value. Array indices and lengths are natural numbers or
  integers, byte values are 8-bit words.
\<close>

section \<open>services/beatParser.ts\<close>

record BeatGrid =
  bpm :: real
  offset :: real
  beats :: "real list"
  downbeats :: "real list"

text \<open>
  Step 2 of \<open>BeatParser.getLockedGrid\<close>: the phase estimate. The \<open>for\<close> loop adds
  \<open>rawBeats[i] - i * idealInterval\<close> for \<open>i < sampleSize\<close>; every index it reads is
  below \<open>rawBeats.length\<close>.
\<close>

definition phaseSum :: "real list \<Rightarrow> real \<Rightarrow> nat \<Rightarrow> real" where
  "phaseSum rawBeats idealInterval sampleSize =
     foldl (\<lambda>s i. s + (rawBeats ! i - real i * idealInterval)) 0 [0..<sampleSize]"

definition averageOffset :: "real list \<Rightarrow> real \<Rightarrow> real \<Rightarrow> real" where
  "averageOffset rawBeats idealInterval forcedOffset =
     (if forcedOffset \<ge> 0 then forcedOffset
      else if length rawBeats \<ge> 2 then
        (let sampleSize = min (length rawBeats) 32
         in phaseSum rawBeats idealInterval sampleSize / real sampleSize)
      else 0)"

text \<open>
  The two normalisation loops \<open>while (t < 0) t += idealInterval\<close> and
  \<open>while (t > idealInterval) t -= idealInterval\<close>. The parameter \<open>fadd\<close> is the
  addition of doubles: \<open>t += d\<close> stores \<open>fadd t d\<close>, the double nearest to the sum, and
  \<open>t -= d\<close> stores \<open>fadd t (- d)\<close>. Neither loop ends for every input: not for an
  interval that is not positive, and not for a time so large that \<open>fadd t d\<close> is \<open>t\<close>
  again. A run that does not return is the value \<open>None\<close>.
\<close>

partial_function (option) normalizeUp ::
  "(real \<Rightarrow> real \<Rightarrow> real) \<Rightarrow> real \<Rightarrow> real \<Rightarrow> real option" where
  "normalizeUp fadd idealInterval t =
     (if t < 0 then normalizeUp fadd idealInterval (fadd t idealInterval) else Some t)"

partial_function (option) normalizeDown ::
  "(real \<Rightarrow> real \<Rightarrow> real) \<Rightarrow> real \<Rightarrow> real \<Rightarrow> real option" where
  "normalizeDown fadd idealInterval t =
     (if t > idealInterval then normalizeDown fadd idealInterval (fadd t (- idealInterval))
      else Some t)"

definition normalizePhase :: "(real \<Rightarrow> real \<Rightarrow> real) \<Rightarrow> real \<Rightarrow> real \<Rightarrow> real option" where
  "normalizePhase fadd idealInterval t0 =
     (case normalizeUp fadd idealInterval t0 of
        None \<Rightarrow> None
      | Some t \<Rightarrow> normalizeDown fadd idealInterval t)"

text \<open>
  Step 3, the grid loop \<open>while (t < totalDuration)\<close>: it appends \<open>t\<close> to
  \<open>lockedBeats\<close>, and to \<open>downbeats\<close> when \<open>beatCount % 4 === 0\<close>, and steps \<open>t\<close> with
  the addition of doubles.
\<close>

partial_function (option) gridLoop ::
  "(real \<Rightarrow> real \<Rightarrow> real) \<Rightarrow> real \<Rightarrow> real \<Rightarrow> real \<Rightarrow> nat \<Rightarrow> real list \<Rightarrow> real list
     \<Rightarrow> (real list \<times> real list) option"
where
  "gridLoop fadd idealInterval totalDuration t beatCount lockedBeats dbs =
     (if t < totalDuration then
        gridLoop fadd idealInterval totalDuration (fadd t idealInterval) (beatCount + 1)
          (lockedBeats @ [t]) (if beatCount mod 4 = 0 then dbs @ [t] else dbs)
      else Some (lockedBeats, dbs))"

text \<open>
  \<open>BeatParser.getLockedGrid\<close>, with the addition of doubles as its first argument.
  The optional parameter \<open>forcedOffset\<close> has the default \<open>-1\<close>; a caller without an
  external offset passes \<open>-1\<close>. The interval is \<open>60 / detectedBpm\<close>; for
  \<open>detectedBpm = 0\<close> JavaScript computes an infinity, which the model does not have, so
  the statements below are about \<open>detectedBpm > 0\<close>. The field \<open>offset\<close> of the result is
  declared in the module \<open>types\<close> as \<open>offset: number; // ms to first downbeat\<close>.
\<close>

definition getLockedGrid ::
  "(real \<Rightarrow> real \<Rightarrow> real) \<Rightarrow> real list \<Rightarrow> real \<Rightarrow> real \<Rightarrow> real \<Rightarrow> BeatGrid option" where
  "getLockedGrid fadd rawBeats detectedBpm totalDuration forcedOffset =
     (let idealInterval = 60 / detectedBpm;
          avg = averageOffset rawBeats idealInterval forcedOffset
      in case normalizePhase fadd idealInterval avg of
           None \<Rightarrow> None
         | Some t \<Rightarrow>
             (case gridLoop fadd idealInterval totalDuration t 0 [] [] of
                None \<Rightarrow> None
              | Some (lockedBeats, dbs) \<Rightarrow>
                  Some \<lparr>bpm = detectedBpm, offset = avg * 1000,
                        beats = lockedBeats, downbeats = dbs\<rparr>))"

section \<open>services/mixEngine.ts: the overlap-add time stretcher\<close>

text \<open>
  Failures of the engine as values. \<open>RangeError\<close> is JavaScript's error for a typed array
  of negative or infinite length and for a \<open>DataView\<close> write past the end of its buffer;
  \<open>NotSupportedError\<close> is what \<open>createBuffer\<close> of the Web Audio API raises for zero
  channels or zero length. \<open>NoValidTracks\<close> and \<open>NoProcessedTracks\<close> are the two
  \<open>throw new Error\<close> of \<open>renderMix\<close> ("No valid tracks to mix." and "Failed to process
  any tracks."). \<open>IndexOutOfRange\<close> is not an exception of the source: JavaScript reads
  \<open>undefined\<close> from a typed array out of range and drops a write out of range. The model
  reports such an access as this error, so that "every access is in range" is a
  property of the result.
\<close>

datatype error =
  RangeError | NotSupportedError | IndexOutOfRange | NoValidTracks | NoProcessedTracks

text \<open>
  An \<open>AudioBuffer\<close>: its sample rate, its \<open>length\<close> in sample frames and the data of
  each channel (\<open>getChannelData(c)\<close>). A buffer of the Web Audio API has at least one
  channel and one frame, and every channel holds \<open>length\<close> samples.
\<close>

record AudioBuffer =
  sampleRate :: nat
  buf_length :: nat
  channelData :: "real list list"

definition numberOfChannels :: "AudioBuffer \<Rightarrow> nat" where
  "numberOfChannels b = length (channelData b)"

definition wf_buffer :: "AudioBuffer \<Rightarrow> bool" where
  "wf_buffer b \<longleftrightarrow>
     0 < numberOfChannels b \<and> 0 < buf_length b \<and>
     list_all (\<lambda>ch. length ch = buf_length b) (channelData b)"

definition winSize :: nat where
  "winSize = 4096"

definition overlap :: nat where
  "overlap = 2"

definition hopSize :: nat where
  "hopSize = winSize div overlap"

definition hanningWindow :: "nat \<Rightarrow> real" where
  "hanningWindow i = 0.5 * (1 - cos (2 * pi * real i / (real winSize - 1)))"

definition inRange :: "'a list \<Rightarrow> int \<Rightarrow> bool" where
  "inRange xs i \<longleftrightarrow> 0 \<le> i \<and> i < int (length xs)"

text \<open>
  The innermost loop \<open>for (i = 0; i < winSize; i++)\<close> over the indices it is given:
  \<open>outCh[outPos + i] += inCh[Math.floor(inPos) + i] * hanningWindow[i]\<close>. The read
  position only ever takes integer values (it starts at 0 and grows by the integer
  \<open>anaHop\<close>), so \<open>Math.floor(inPos)\<close> is \<open>inPos\<close>.
\<close>

fun olaWindow :: "real list \<Rightarrow> int \<Rightarrow> int \<Rightarrow> nat list \<Rightarrow> real list \<Rightarrow> error + real list" where
  "olaWindow inCh inPos outPos [] outCh = Inr outCh"
| "olaWindow inCh inPos outPos (i # is) outCh =
     (if inRange inCh (inPos + int i) \<and> inRange outCh (outPos + int i) then
        olaWindow inCh inPos outPos is
          (outCh[nat (outPos + int i) :=
             outCh ! nat (outPos + int i) + inCh ! nat (inPos + int i) * hanningWindow i])
      else Inl IndexOutOfRange)"

text \<open>The loop over the channels: \<open>inputData[c]\<close> is windowed into \<open>outputData[c]\<close>.\<close>

fun olaChannels ::
  "real list list \<Rightarrow> int \<Rightarrow> int \<Rightarrow> real list list \<Rightarrow> error + real list list" where
  "olaChannels (inCh # ins) inPos outPos (outCh # outs) =
     (case olaWindow inCh inPos outPos [0..<winSize] outCh of
        Inl e \<Rightarrow> Inl e
      | Inr outCh' \<Rightarrow>
          (case olaChannels ins inPos outPos outs of
             Inl e \<Rightarrow> Inl e
           | Inr outs' \<Rightarrow> Inr (outCh' # outs')))"
| "olaChannels ins inPos outPos outs = Inr outs"

text \<open>
  The overlap-add loop
  \<open>while (outPos < newLength - winSize && inPos < buffer.length - winSize)\<close>.
  The write position grows by \<open>hopSize = 2048\<close> in every round, so the loop ends.
\<close>

function olaLoop ::
  "real list list \<Rightarrow> int \<Rightarrow> int \<Rightarrow> int \<Rightarrow> real list list \<Rightarrow> int \<Rightarrow> int
     \<Rightarrow> error + real list list"
where
  "olaLoop inputData bufLen newLength anaHop outputData outPos inPos =
     (if outPos < newLength - int winSize \<and> inPos < bufLen - int winSize then
        (case olaChannels inputData inPos outPos outputData of
           Inl e \<Rightarrow> Inl e
         | Inr outputData' \<Rightarrow>
             olaLoop inputData bufLen newLength anaHop outputData'
               (outPos + int hopSize) (inPos + anaHop))
      else Inr outputData)"
  by pat_completeness auto
termination
  by (relation "measure (\<lambda>(inputData, bufLen, newLength, anaHop, outputData, outPos, inPos).
                   nat (newLength - int winSize - outPos))")
     (auto simp: hopSize_def winSize_def overlap_def)

declare olaLoop.simps [simp del]

text \<open>
  \<open>ctx.createBuffer(numChannels, newLength, sampleRate)\<close> followed by
  \<open>copyToChannel(outputData[c], c)\<close> for every channel.
\<close>

definition createBuffer :: "nat \<Rightarrow> int \<Rightarrow> nat \<Rightarrow> error + AudioBuffer" where
  "createBuffer numChannels len rate =
     (if numChannels = 0 \<or> len \<le> 0 then Inl NotSupportedError
      else Inr \<lparr>sampleRate = rate, buf_length = nat len,
                channelData = replicate numChannels (replicate (nat len) 0)\<rparr>)"

text \<open>
  \<open>InternalTimeStretcher.process\<close>. \<open>new Float32Array(newLength)\<close> raises a
  \<open>RangeError\<close> for a negative length, and for the infinite length that
  \<open>buffer.length / 0\<close> is. (A buffer without channels, which the Web Audio API never
  hands out, would allocate no array; the model reports the \<open>RangeError\<close> for it all
  the same.)
\<close>

definition process :: "AudioBuffer \<Rightarrow> real \<Rightarrow> error + AudioBuffer" where
  "process buffer speed =
     (if \<bar>speed - 1.0\<bar> < 0.001 then Inr buffer
      else
        let numChannels = numberOfChannels buffer;
            inputData = channelData buffer;
            anaHop = \<lfloor>real hopSize * speed\<rfloor>
        in if speed = 0 then Inl RangeError
           else
             let newLength = \<lfloor>real (buf_length buffer) / speed\<rfloor>
             in if newLength < 0 then Inl RangeError
                else
                  (case olaLoop inputData (int (buf_length buffer)) newLength anaHop
                          (replicate numChannels (replicate (nat newLength) 0)) 0 0 of
                     Inl e \<Rightarrow> Inl e
                   | Inr outputData \<Rightarrow>
                       (case createBuffer numChannels newLength (sampleRate buffer) of
                          Inl e \<Rightarrow> Inl e
                        | Inr newBuffer \<Rightarrow> Inr (newBuffer\<lparr>channelData := outputData\<rparr>))))"

text \<open>
  The output samples of the last \<open>winSize\<close> positions of every channel are zero.
\<close>

definition tailZero :: "AudioBuffer \<Rightarrow> bool" where
  "tailZero b \<longleftrightarrow>
     list_all (\<lambda>ch. list_all (\<lambda>k. ch ! k = 0) [length ch - winSize..<length ch])
       (channelData b)"

section \<open>The module types\<close>

text \<open>
  The module \<open>types\<close> (in the sources it follows the beat visualizer component, in
  \<open>components/BeatVisualizer.tsx\<close>): the enumerations \<open>MixStyle\<close> and
  \<open>TransitionTechnique\<close> with all their members in the order of the source, and the
  interfaces \<open>CuePoints\<close>, \<open>EnergyProfile\<close>, \<open>TrackMetadata\<close>, \<open>MixConfiguration\<close> and
  \<open>MixResult\<close> as records. The fields \<open>start\<close>, \<open>end\<close> of the cue points are
  \<open>cue_start\<close>, \<open>cue_end\<close> here, those of the loop region \<open>loop_start\<close>, \<open>loop_end\<close>;
  a track's \<open>id\<close> and \<open>file\<close> are \<open>track_id\<close> and the identifier \<open>track_file\<close>. The
  interface declares \<open>cuePoints\<close> as required, and \<open>renderMix\<close> reads it with \<open>?.\<close>: the
  field is optional here, \<open>None\<close> for \<open>undefined\<close>.
\<close>

datatype TransitionTechnique =
  PHRASE_MIXING | HARMONIC_MIXING | SLOW_EQ_BLEND | BASS_SWAP | FILTER_SWEEP
  | ECHO_OUT | REVERB_WASH | DELAY_THROW | DROP_SWAP | LONG_BLEND | HARD_CUT
  | LOOP_ECHO | ACAPELLA_LAYER

datatype MixStyle = CAROLA | MILLS | GARNIER | SANCHEZ | SOLOMUN | SIMS | MAY

datatype TrackStatus = PENDING | ANALYZING | READY | ERROR

record LoopRegion =
  loop_start :: real
  loop_end :: real

record CuePoints =
  cue_start :: real
  cue_end :: real
  loopRegion :: LoopRegion

record EnergyProfile =
  low :: "real list"
  mid :: "real list"
  high :: "real list"

text \<open>
  \<open>a || b\<close> on numbers: \<open>b\<close> when \<open>a\<close> is falsy. Of the falsy values (\<open>0\<close>, not-a-number,
  \<open>undefined\<close>) a real number can only be \<open>0\<close>.
\<close>

definition jsOr :: "real \<Rightarrow> real \<Rightarrow> real" where
  "jsOr a b = (if a = 0 then b else a)"

section \<open>services/mixEngine.ts: the analysis engine, tempo\<close>

text \<open>
  The tempo code tests \<open>isNaN\<close>, so its numbers are a real or the not-a-number. A
  comparison with the not-a-number is false, arithmetic with it yields it, and it is
  falsy. \<open>undefined\<close> behaves in the same way in every operation used here. The
  infinities are outside the model.
\<close>

datatype jsnum = NaN | Num real

fun jsLess :: "jsnum \<Rightarrow> jsnum \<Rightarrow> bool" where
  "jsLess (Num x) (Num y) = (x < y)"
| "jsLess a b = False"

fun jsArith :: "(real \<Rightarrow> real \<Rightarrow> real) \<Rightarrow> jsnum \<Rightarrow> jsnum \<Rightarrow> jsnum" where
  "jsArith f (Num x) (Num y) = Num (f x y)"
| "jsArith f a b = NaN"

fun jsAbs :: "jsnum \<Rightarrow> jsnum" where
  "jsAbs (Num x) = Num \<bar>x\<bar>"
| "jsAbs NaN = NaN"

fun jsFalsy :: "jsnum \<Rightarrow> bool" where
  "jsFalsy (Num x) = (x = 0)"
| "jsFalsy NaN = True"

text \<open>
  The cross-check of \<open>analyzeTrack\<close> between the tempo of the feature extractor and
  the result of the beat detector \<open>guess\<close>, which is \<open>None\<close> when the detector raises.
  The result is the consensus tempo, the consensus offset and the confidence.
\<close>

definition consensusTempo ::
  "jsnum \<Rightarrow> jsnum \<Rightarrow> (jsnum \<times> jsnum) option \<Rightarrow> jsnum \<times> jsnum \<times> jsnum" where
  "consensusTempo essentiaBpm rhythmConfidence guessed =
     (let confidence = (if jsFalsy rhythmConfidence then Num 0.5 else rhythmConfidence)
      in case guessed of
           None \<Rightarrow> (essentiaBpm, Num (- 1), confidence)
         | Some (b, off) \<Rightarrow>
             (let delta = jsAbs (jsArith (-) b essentiaBpm)
              in if jsLess delta (Num 2.0) then
                   (jsArith (/) (jsArith (+) b essentiaBpm) (Num 2), off,
                    jsArith min (jsArith (+) confidence (Num 0.2)) (Num 0.99))
                 else if jsLess (jsAbs (jsArith (-) (jsArith (*) b (Num 2)) essentiaBpm)) (Num 3.0)
                 then (essentiaBpm, off, jsArith max confidence (Num 0.7))
                 else if jsLess (jsAbs (jsArith (-) (jsArith (/) b (Num 2)) essentiaBpm)) (Num 3.0)
                 then (essentiaBpm, off, jsArith max confidence (Num 0.7))
                 else (essentiaBpm, Num (- 1),
                       jsArith max (jsArith (-) confidence (Num 0.2)) (Num 0.1))))"

text \<open>
  "Normalization \<open>&\<close> Fallback" of \<open>analyzeTrack\<close>, on the consensus tempo and the
  confidence.
\<close>

definition foldTempoFull :: "jsnum \<Rightarrow> jsnum \<Rightarrow> jsnum \<times> jsnum" where
  "foldTempoFull consensusBpm confidence =
     (let b1 = (if jsLess consensusBpm (Num 80) then jsArith (*) consensusBpm (Num 2)
                else consensusBpm);
          b2 = (if jsLess (Num 160) b1 then jsArith (/) b1 (Num 2) else b1)
      in if jsLess b2 (Num 60) \<or> b2 = NaN \<or> b2 = Num 0 then (Num 125, Num 0.1)
         else (b2, confidence))"

definition analyzeTrackTempo ::
  "jsnum \<Rightarrow> jsnum \<Rightarrow> (jsnum \<times> jsnum) option \<Rightarrow> jsnum \<times> jsnum \<times> jsnum" where
  "analyzeTrackTempo essentiaBpm rhythmConfidence guessed =
     (case consensusTempo essentiaBpm rhythmConfidence guessed of
        (consensusBpm, consensusOffset, confidence) \<Rightarrow>
          (case foldTempoFull consensusBpm confidence of
             (b, c) \<Rightarrow> (b, consensusOffset, c)))"

text \<open>"Normalize BPM" of \<open>analyzeLite\<close>: no test against 60, the confidence is kept.\<close>

definition foldTempoLite :: "jsnum \<Rightarrow> jsnum" where
  "foldTempoLite b0 =
     (let b1 = (if jsLess b0 (Num 80) then jsArith (*) b0 (Num 2) else b0);
          b2 = (if jsLess (Num 160) b1 then jsArith (/) b1 (Num 2) else b1)
      in if b2 = NaN \<or> b2 = Num 0 then Num 125 else b2)"

text \<open>
  The tempo part of \<open>analyzeLite\<close>: tempo, offset and confidence, from the result of
  \<open>guess\<close>.
\<close>

definition analyzeLiteTempo :: "(jsnum \<times> jsnum) option \<Rightarrow> jsnum \<times> jsnum \<times> jsnum" where
  "analyzeLiteTempo guessed =
     (case guessed of
        None \<Rightarrow> (foldTempoLite (Num 125), Num 0, Num 0.3)
      | Some (b, off) \<Rightarrow> (foldTempoLite b, off, Num 0.6))"

text \<open>The tempo is between 60 and 160.\<close>

fun tempoInRange :: "jsnum \<Rightarrow> bool" where
  "tempoInRange (Num x) = (60 \<le> x \<and> x \<le> 160)"
| "tempoInRange NaN = False"

text \<open>
  The octave correction as it is claimed of a folded tempo and its confidence: the
  tempo is in the range, or it is the fallback 125 with the confidence 0.1.
\<close>

definition octaveCorrected :: "jsnum \<Rightarrow> jsnum \<Rightarrow> bool" where
  "octaveCorrected b c \<longleftrightarrow> tempoInRange b \<or> (b = Num 125 \<and> c = Num 0.1)"

section \<open>services/mixEngine.ts: the analysis engine, cue points\<close>

text \<open>
  The callback of both \<open>reduce\<close> calls of \<open>detectCuePoints\<close>: of the accumulated and the
  current downbeat, the one nearer to the target, the accumulated one at a tie.
\<close>

definition nearer :: "real \<Rightarrow> real \<Rightarrow> real \<Rightarrow> real" where
  "nearer target prv cur = (if \<bar>cur - target\<bar> < \<bar>prv - target\<bar> then cur else prv)"

text \<open>
  The outro search: the mean of the low band over the buckets from 20 to 70 per cent,
  and the first bucket from 70 per cent on whose three-bucket mean is below 0.6 of it.
  \<open>find\<close> is the loop with its \<open>break\<close>; every index read is below \<open>samples\<close>.
\<close>

definition outroTimeOf :: "real list \<Rightarrow> real \<Rightarrow> real" where
  "outroTimeOf lowE dur =
     (let samples = length lowE;
          timePerSample = dur / real samples;
          searchStartIndex = nat \<lfloor>real samples * 0.70\<rfloor>;
          mainIdx = [nat \<lfloor>real samples * 0.2\<rfloor>..<nat \<lfloor>real samples * 0.7\<rfloor>];
          mainSum = foldl (\<lambda>s i. s + lowE ! i) 0 mainIdx;
          mainCount = length mainIdx;
          mainAvg = (if mainCount > 0 then mainSum / real mainCount else 0.5);
          dropThreshold = mainAvg * 0.6
      in case find (\<lambda>i. (lowE ! i + lowE ! (i + 1) + lowE ! (i + 2)) / 3 < dropThreshold)
                [searchStartIndex..<samples - 5] of
           None \<Rightarrow> dur - 15
         | Some i \<Rightarrow> real i * timePerSample)"

text \<open>
  The end point: the downbeat nearest to the outro time, then the two clamps. The
  \<open>reduce\<close> starts from \<open>downbeats[downbeats.length - 1] || duration\<close>.
\<close>

definition endPointOf :: "real list \<Rightarrow> real \<Rightarrow> real \<Rightarrow> real" where
  "endPointOf dbs outroTime dur =
     (let nearestDownbeat =
            foldl (nearer outroTime) (case dbs of [] \<Rightarrow> dur | _ \<Rightarrow> jsOr (last dbs) dur) dbs;
          e1 = (if nearestDownbeat > dur - 5 then dur - 5 else nearestDownbeat)
      in if e1 < dur * 0.6 then dur * 0.9 else e1)"

text \<open>The start point: \<open>downbeats[0]\<close>, or 0 for a grid without downbeats.\<close>

definition firstDownbeat :: "BeatGrid \<Rightarrow> real" where
  "firstDownbeat beatGrid = (case downbeats beatGrid of [] \<Rightarrow> 0 | d # _ \<Rightarrow> d)"

definition detectCuePoints :: "BeatGrid \<Rightarrow> EnergyProfile \<Rightarrow> real \<Rightarrow> CuePoints" where
  "detectCuePoints beatGrid energy dur =
     (let startPoint = firstDownbeat beatGrid;
          samples = length (low energy)
      in if samples = 0 then
           \<lparr>cue_start = 0, cue_end = dur - 15,
            loopRegion = \<lparr>loop_start = dur - 20, loop_end = dur - 15\<rparr>\<rparr>
         else
           let endPoint = endPointOf (downbeats beatGrid) (outroTimeOf (low energy) dur) dur;
               beatsToLoop = 4 * 4;
               secondsPerBeat = 60 / bpm beatGrid;
               loopDuration = beatsToLoop * secondsPerBeat;
               loopStart0 = endPoint - loopDuration;
               snapLoopStart = foldl (nearer loopStart0) loopStart0 (downbeats beatGrid);
               loopStart1 = (if \<bar>snapLoopStart - loopStart0\<bar> < 2.0 then snapLoopStart
                             else loopStart0);
               loopStart = (if loopStart1 < startPoint then max 0 (dur - 30) else loopStart1);
               loopEnd = (if endPoint \<le> loopStart then dur else endPoint)
           in \<lparr>cue_start = startPoint, cue_end = loopEnd,
               loopRegion = \<lparr>loop_start = loopStart, loop_end = loopEnd\<rparr>\<rparr>)"

text \<open>The ordering of the cue points of a track of the given duration.\<close>

definition cueOrdered :: "CuePoints \<Rightarrow> real \<Rightarrow> bool" where
  "cueOrdered c dur \<longleftrightarrow>
     0 \<le> cue_start c \<and> cue_start c < loop_start (loopRegion c) \<and>
     loop_start (loopRegion c) \<le> loop_end (loopRegion c) \<and>
     loop_end (loopRegion c) \<le> cue_end c \<and> cue_end c \<le> dur"

section \<open>services/mixEngine.ts: the mix timeline\<close>

text \<open>The remaining interfaces of the module \<open>types\<close>.\<close>

record TrackMetadata =
  track_id :: string
  track_file :: nat
  name :: string
  duration :: real
  originalBpm :: real
  key :: string
  beatGrid :: BeatGrid
  energyProfile :: EnergyProfile
  cuePoints :: "CuePoints option"
  gainFactor :: real
  grooveIndex :: real
  confidence :: real
  status :: TrackStatus
  playbackRatio :: real

record MixConfiguration =
  style :: MixStyle
  targetBpm :: real
  transitionLengthBars :: nat

definition TARGET_BPM :: real where
  "TARGET_BPM = 125"

definition BEAT_DURATION :: real where
  "BEAT_DURATION = 60 / TARGET_BPM"

definition BAR_DURATION :: real where
  "BAR_DURATION = BEAT_DURATION * 4"

text \<open>
  The table \<open>STYLE_PROFILES\<close>. A lookup in a JavaScript record can miss, which
  \<open>chooseTechnique\<close> tests with \<open>!profile\<close>; every style of the enumeration has an
  entry.
\<close>

fun STYLE_PROFILES :: "MixStyle \<Rightarrow> (TransitionTechnique \<times> real) list option" where
  "STYLE_PROFILES CAROLA = Some [(LONG_BLEND, 0.5), (BASS_SWAP, 0.4), (SLOW_EQ_BLEND, 0.1)]"
| "STYLE_PROFILES MILLS =
     Some [(HARD_CUT, 0.4), (LOOP_ECHO, 0.3), (DROP_SWAP, 0.2), (FILTER_SWEEP, 0.1)]"
| "STYLE_PROFILES GARNIER = Some [(FILTER_SWEEP, 0.5), (SLOW_EQ_BLEND, 0.3), (LONG_BLEND, 0.2)]"
| "STYLE_PROFILES SANCHEZ = Some [(PHRASE_MIXING, 0.4), (LOOP_ECHO, 0.3), (SLOW_EQ_BLEND, 0.3)]"
| "STYLE_PROFILES SOLOMUN = Some [(LONG_BLEND, 0.6), (DROP_SWAP, 0.3), (BASS_SWAP, 0.1)]"
| "STYLE_PROFILES SIMS = Some [(HARD_CUT, 0.3), (DROP_SWAP, 0.4), (ECHO_OUT, 0.3)]"
| "STYLE_PROFILES MAY = Some [(BASS_SWAP, 0.4), (SLOW_EQ_BLEND, 0.4), (FILTER_SWEEP, 0.2)]"

text \<open>
  \<open>getOverlapBars\<close>: the nine cases of the \<open>switch\<close> in their order, and its
  \<open>default: return 32\<close> for the four other techniques.
\<close>

fun getOverlapBars :: "TransitionTechnique \<Rightarrow> real" where
  "getOverlapBars HARD_CUT = 0"
| "getOverlapBars DROP_SWAP = 8"
| "getOverlapBars ECHO_OUT = 4"
| "getOverlapBars LOOP_ECHO = 8"
| "getOverlapBars FILTER_SWEEP = 16"
| "getOverlapBars BASS_SWAP = 32"
| "getOverlapBars SLOW_EQ_BLEND = 32"
| "getOverlapBars PHRASE_MIXING = 32"
| "getOverlapBars LONG_BLEND = 64"
| "getOverlapBars tech = 32"

text \<open>
  \<open>chooseTechnique\<close>: the loop \<open>for (const item of profile)\<close> and the function around
  it. The value of \<open>Math.random()\<close> is the argument \<open>u\<close>.
\<close>

fun walkProfile :: "(TransitionTechnique \<times> real) list \<Rightarrow> real \<Rightarrow> TransitionTechnique" where
  "walkProfile [] random = SLOW_EQ_BLEND"
| "walkProfile ((tech, weight) # rest) random =
     (if random < weight then tech else walkProfile rest (random - weight))"

definition chooseTechnique :: "MixStyle \<Rightarrow> real \<Rightarrow> TransitionTechnique" where
  "chooseTechnique st u =
     (case STYLE_PROFILES st of
        None \<Rightarrow> SLOW_EQ_BLEND
      | Some profile \<Rightarrow>
          (let totalWeight = foldl (\<lambda>sum item. sum + snd item) 0 profile;
               random = u * totalWeight
           in walkProfile profile random))"

record ProcessedTrack =
  buffer :: AudioBuffer
  metadata :: TrackMetadata
  tempo :: real

record TimelineEvent =
  trackIndex :: nat
  startTime :: real
  ev_buffer :: AudioBuffer
  bufferOffsetStart :: real
  bufferOffsetEnd :: real
  bufferLoopStart :: real
  bufferLoopEnd :: real
  overlapTime :: real
  technique :: TransitionTechnique
  gain :: real

text \<open>
  Step 2 of \<open>renderMix\<close>, the loop that builds the timeline, from track \<open>i\<close> and the
  cursor on. \<open>nextTrack\<close> is \<open>processedTracks[i+1]\<close>, which is \<open>undefined\<close> for the last
  track. The \<open>i\<close>-th boundary is the \<open>i\<close>-th call of \<open>Math.random\<close>, whose value is
  \<open>rnd i\<close>. The result is the list of events and the final cursor.
\<close>

fun timelineLoop ::
  "MixStyle \<Rightarrow> (nat \<Rightarrow> real) \<Rightarrow> nat \<Rightarrow> real \<Rightarrow> ProcessedTrack list
     \<Rightarrow> TimelineEvent list \<times> real"
where
  "timelineLoop st rnd i cursor [] = ([], cursor)"
| "timelineLoop st rnd i cursor (pTrack # rest) =
     (let nextTrack = (rest \<noteq> []);
          tech = (if nextTrack then chooseTechnique st (rnd i) else SLOW_EQ_BLEND);
          overlapBars = (if nextTrack then getOverlapBars tech else 0);
          ovTime = overlapBars * BAR_DURATION;
          scaleFactor = 1 / tempo pTrack;
          cues = cuePoints (metadata pTrack);
          rawCueStart = jsOr (case cues of None \<Rightarrow> 0 | Some c \<Rightarrow> cue_start c) 0;
          rawCueEnd = jsOr (case cues of None \<Rightarrow> 0 | Some c \<Rightarrow> cue_end c)
                        (duration (metadata pTrack));
          rawLoopStart = jsOr (case cues of None \<Rightarrow> 0 | Some c \<Rightarrow> loop_start (loopRegion c)) 0;
          rawLoopEnd = jsOr (case cues of None \<Rightarrow> 0 | Some c \<Rightarrow> loop_end (loopRegion c)) 0;
          offStart = rawCueStart * scaleFactor;
          offEnd = rawCueEnd * scaleFactor;
          eventDuration = offEnd - offStart;
          event = \<lparr>trackIndex = i, startTime = cursor, ev_buffer = buffer pTrack,
                   bufferOffsetStart = offStart, bufferOffsetEnd = offEnd,
                   bufferLoopStart = rawLoopStart * scaleFactor,
                   bufferLoopEnd = rawLoopEnd * scaleFactor,
                   overlapTime = ovTime, technique = tech,
                   gain = jsOr (gainFactor (metadata pTrack)) 1.0\<rparr>;
          cursor' = (if nextTrack then cursor + (eventDuration - ovTime)
                     else cursor + eventDuration);
          (events, final) = timelineLoop st rnd (i + 1) cursor' rest
      in (event # events, final))"

section \<open>services/mixEngine.ts: the WAV encoder\<close>

type_synonym byte = "8 word"

text \<open>
  The \<open>DataView\<close> over the output buffer together with the write position \<open>pos\<close> that
  the closures \<open>setUint16\<close>, \<open>setUint32\<close> and the sample loop share.
\<close>

record DataView =
  view :: "byte list"
  pos :: nat

text \<open>
  The \<open>k\<close> low bytes of an integer, least significant first: what a little-endian
  \<open>DataView\<close> setter of \<open>k\<close> bytes stores (the value modulo \<open>2 ^ (8 * k)\<close>, in two's
  complement for a negative number).
\<close>

definition bytesLE :: "nat \<Rightarrow> int \<Rightarrow> byte list" where
  "bytesLE k data = map (\<lambda>j. word_of_int ((data div 256 ^ j) mod 256)) [0..<k]"

text \<open>A setter raises a \<open>RangeError\<close> when the bytes do not fit into the buffer.\<close>

definition writeBytes :: "byte list \<Rightarrow> DataView \<Rightarrow> error + DataView" where
  "writeBytes bs dv =
     (if pos dv + length bs \<le> length (view dv) then
        Inr \<lparr>view = take (pos dv) (view dv) @ bs @ drop (pos dv + length bs) (view dv),
             pos = pos dv + length bs\<rparr>
      else Inl RangeError)"

definition setUint16 :: "int \<Rightarrow> DataView \<Rightarrow> error + DataView" where
  "setUint16 data = writeBytes (bytesLE 2 data)"

definition setUint32 :: "int \<Rightarrow> DataView \<Rightarrow> error + DataView" where
  "setUint32 data = writeBytes (bytesLE 4 data)"

definition setInt16 :: "int \<Rightarrow> DataView \<Rightarrow> error + DataView" where
  "setInt16 data = writeBytes (bytesLE 2 data)"

definition getUint32 :: "byte list \<Rightarrow> nat \<Rightarrow> nat" where
  "getUint32 bs p =
     unat (bs ! p) + 256 * unat (bs ! (p + 1)) + 65536 * unat (bs ! (p + 2))
       + 16777216 * unat (bs ! (p + 3))"

text \<open>The thirteen header writes of \<open>bufferToWave\<close>, in their order.\<close>

definition wavHeader :: "nat \<Rightarrow> nat \<Rightarrow> nat \<Rightarrow> DataView \<Rightarrow> error + DataView" where
  "wavHeader numOfChan rate len dv =
     foldl (\<lambda>st w. case st of Inl e \<Rightarrow> Inl e | Inr d \<Rightarrow> w d) (Inr dv)
       [setUint32 0x46464952,
        setUint32 (int len - 8),
        setUint32 0x45564157,
        setUint32 0x20746d66,
        setUint32 16,
        setUint16 1,
        setUint16 (int numOfChan),
        setUint32 (int rate),
        setUint32 (int rate * 2 * int numOfChan),
        setUint16 (int numOfChan * 2),
        setUint16 16,
        setUint32 0x61746164,
        (\<lambda>d. setUint32 (int len - int (pos d) - 4) d)]"

text \<open>
  The conversion of one sample. \<open>x | 0\<close> truncates towards zero and wraps to a signed
  32-bit integer. The condition of the source is \<open>0.5 + sample < 0\<close>: the addition binds
  tighter than the comparison.
\<close>

definition toInt32 :: "real \<Rightarrow> int" where
  "toInt32 x =
     (let t = (if x < 0 then \<lceil>x\<rceil> else \<lfloor>x\<rfloor>)
      in (t + 2147483648) mod 4294967296 - 2147483648)"

definition sampleToInt :: "real \<Rightarrow> int" where
  "sampleToInt x =
     (let sample = max (- 1) (min 1 x)
      in toInt32 (if 0.5 + sample < 0 then sample * 32768 else sample * 32767))"

text \<open>
  \<open>channels[i][offset]\<close>: a read past the end of the channel is \<open>undefined\<close>, which the
  clamp turns into a not-a-number and \<open>| 0\<close> into \<open>0\<close>.
\<close>

definition readSample :: "real list \<Rightarrow> nat \<Rightarrow> int" where
  "readSample ch off = (if off < length ch then sampleToInt (ch ! off) else 0)"

text \<open>The inner loop \<open>for (i = 0; i < numOfChan; i++)\<close>: one frame of samples.\<close>

fun wavFrame :: "real list list \<Rightarrow> nat \<Rightarrow> nat list \<Rightarrow> DataView \<Rightarrow> error + DataView" where
  "wavFrame channels off [] dv = Inr dv"
| "wavFrame channels off (i # is) dv =
     (case setInt16 (readSample (channels ! i) off) dv of
        Inl e \<Rightarrow> Inl e
      | Inr dv' \<Rightarrow> wavFrame channels off is dv')"

text \<open>
  The loop \<open>while (pos < length)\<close>. With no channel the position never moves, so the
  loop need not end: not returning is \<open>None\<close>.
\<close>

partial_function (option) wavLoop ::
  "real list list \<Rightarrow> nat \<Rightarrow> nat \<Rightarrow> DataView \<Rightarrow> nat \<Rightarrow> (error + byte list) option"
where
  "wavLoop channels numOfChan len dv off =
     (if pos dv < len then
        (case wavFrame channels off [0..<numOfChan] dv of
           Inl e \<Rightarrow> Some (Inl e)
         | Inr dv' \<Rightarrow> wavLoop channels numOfChan len dv' (off + 1))
      else Some (Inr (view dv)))"

definition bufferToWave :: "AudioBuffer \<Rightarrow> nat \<Rightarrow> nat \<Rightarrow> (error + byte list) option" where
  "bufferToWave abuffer off len =
     (let numOfChan = numberOfChannels abuffer;
          total = len * numOfChan * 2 + 44
      in case wavHeader numOfChan (sampleRate abuffer) total
                \<lparr>view = replicate total 0, pos = 0\<rparr> of
           Inl e \<Rightarrow> Some (Inl e)
         | Inr dv \<Rightarrow> wavLoop (channelData abuffer) numOfChan total dv off)"

section \<open>services/mixEngine.ts: renderMix\<close>

text \<open>
  The result of a mix. The nested \<open>metadata\<close> object of the interface is flattened:
  its \<open>style\<close> is \<open>mix_style\<close>, the mix's \<open>duration\<close> is \<open>mix_duration\<close>. The \<open>url\<close> is
  an object URL of the browser for the blob and has no counterpart here.
\<close>

record MixResult =
  blob :: "byte list"
  mix_duration :: real
  transitionPoints :: "real list"
  mix_style :: MixStyle
  techniquesUsed :: "TransitionTechnique list"

text \<open>
  Step 1 of \<open>renderMix\<close>: every valid track is decoded and stretched inside a
  \<open>try\<close>; a track whose decoding or stretching raises is logged and left out. The
  decoder is the parameter \<open>loadBuffer\<close>, \<open>None\<close> for a file it rejects.
\<close>

fun prepareTracks :: "(nat \<Rightarrow> AudioBuffer option) \<Rightarrow> TrackMetadata list \<Rightarrow> ProcessedTrack list" where
  "prepareTracks loadBuffer [] = []"
| "prepareTracks loadBuffer (track # rest) =
     (case loadBuffer (track_file track) of
        None \<Rightarrow> prepareTracks loadBuffer rest
      | Some rawBuffer \<Rightarrow>
          (let tmp = TARGET_BPM / originalBpm track
           in case process rawBuffer tmp of
                Inl e \<Rightarrow> prepareTracks loadBuffer rest
              | Inr stretchedBuffer \<Rightarrow>
                  \<lparr>buffer = stretchedBuffer, metadata = track, tempo = tmp\<rparr>
                    # prepareTracks loadBuffer rest))"

text \<open>
  \<open>MixEngine.renderMix\<close>. The offline render of the scheduled events (the audio graph,
  the automation curves and \<open>startRendering\<close>) belongs to the Web Audio API and is the
  parameter \<open>render\<close>, from the timeline and the total duration to the rendered buffer.
  A mix that raises has no result: neither a WAV blob nor transition points.
\<close>

definition renderMix ::
  "(nat \<Rightarrow> AudioBuffer option) \<Rightarrow> (nat \<Rightarrow> real) \<Rightarrow> (TimelineEvent list \<Rightarrow> real \<Rightarrow> AudioBuffer)
     \<Rightarrow> TrackMetadata list \<Rightarrow> MixConfiguration \<Rightarrow> (error + MixResult) option"
where
  "renderMix loadBuffer rnd render tracks config =
     (let validTracks = filter (\<lambda>t. status t = READY \<and> originalBpm t > 0) tracks
      in if length validTracks = 0 then Some (Inl NoValidTracks)
         else
           let processedTracks = prepareTracks loadBuffer validTracks
           in if length processedTracks = 0 then Some (Inl NoProcessedTracks)
              else
                let (timelineEvents, cursor) = timelineLoop (style config) rnd 0 0 processedTracks;
                    totalDuration = max (cursor + 10) 10;
                    renderedBuffer = render timelineEvents totalDuration
                in case bufferToWave renderedBuffer 0 (buf_length renderedBuffer) of
                     None \<Rightarrow> None
                   | Some (Inl e) \<Rightarrow> Some (Inl e)
                   | Some (Inr wavBlob) \<Rightarrow>
                       Some (Inr \<lparr>blob = wavBlob,
                                  mix_duration = real (buf_length renderedBuffer)
                                                   / real (sampleRate renderedBuffer),
                                  transitionPoints = map startTime timelineEvents,
                                  mix_style = style config,
                                  techniquesUsed = map technique timelineEvents\<rparr>))"

section \<open>Example inputs\<close>

text \<open>One channel of 10000 samples of value 1, to be stretched at speed 2.\<close>

definition onesBuffer :: AudioBuffer where
  "onesBuffer = \<lparr>sampleRate = 44100, buf_length = 10000, channelData = [replicate 10000 1]\<rparr>"


text \<open>One second of stereo silence at 44100 Hz.\<close>

definition silentSecond :: AudioBuffer where
  "silentSecond = \<lparr>sampleRate = 44100, buf_length = 44100,
                    channelData = [replicate 44100 0, replicate 44100 0]\<rparr>"

text \<open>The grid of a track of 8 seconds at 120 BPM, and a flat energy profile.\<close>

definition shortGrid :: BeatGrid where
  "shortGrid = \<lparr>bpm = 120, offset = 0,
     beats = [0, 1/2, 1, 3/2, 2, 5/2, 3, 7/2, 4, 9/2, 5, 11/2, 6, 13/2, 7, 15/2],
     downbeats = [0, 2, 4, 6]\<rparr>"

definition flatEnergy :: EnergyProfile where
  "flatEnergy = \<lparr>low = replicate 200 (1/2), mid = replicate 200 (1/2),
                  high = replicate 200 (1/2)\<rparr>"

text \<open>Two analysed tracks, at 120 and at 130 BPM, and what \<open>renderMix\<close> prepares of them.\<close>

definition trackA :: TrackMetadata where
  "trackA = \<lparr>track_id = ''a'', track_file = 1, name = ''A'', duration = 300,
     originalBpm = 120, key = ''8A'',
     beatGrid = \<lparr>bpm = 120, offset = 0, beats = [], downbeats = []\<rparr>,
     energyProfile = flatEnergy,
     cuePoints = Some \<lparr>cue_start = 0, cue_end = 288,
                       loopRegion = \<lparr>loop_start = 280, loop_end = 288\<rparr>\<rparr>,
     gainFactor = 1, grooveIndex = 0, confidence = 0.9, status = READY,
     playbackRatio = 125 / 120\<rparr>"

definition trackB :: TrackMetadata where
  "trackB = \<lparr>track_id = ''b'', track_file = 2, name = ''B'', duration = 260,
     originalBpm = 130, key = ''9A'',
     beatGrid = \<lparr>bpm = 130, offset = 0, beats = [], downbeats = []\<rparr>,
     energyProfile = flatEnergy,
     cuePoints = Some \<lparr>cue_start = 0, cue_end = 234,
                       loopRegion = \<lparr>loop_start = 226, loop_end = 234\<rparr>\<rparr>,
     gainFactor = 1, grooveIndex = 0, confidence = 0.9, status = READY,
     playbackRatio = 125 / 130\<rparr>"

definition exampleProcessed :: "ProcessedTrack list" where
  "exampleProcessed =
     [\<lparr>buffer = onesBuffer, metadata = trackA, tempo = 125 / 120\<rparr>,
      \<lparr>buffer = onesBuffer, metadata = trackB, tempo = 125 / 130\<rparr>]"

definition exampleEvents :: "TimelineEvent list" where
  "exampleEvents = fst (timelineLoop CAROLA (\<lambda>i. 0) 0 0 exampleProcessed)"

text \<open>The same two tracks after a failed analysis, and a mix configuration.\<close>

definition failedTracks :: "TrackMetadata list" where
  "failedTracks = [trackA\<lparr>status := ERROR\<rparr>, trackB\<lparr>status := ERROR\<rparr>]"

definition exampleConfig :: MixConfiguration where
  "exampleConfig = \<lparr>style = CAROLA, targetBpm = 125, transitionLengthBars = 32\<rparr>"

section \<open>Properties of the beat grid\<close>

text \<open>
  C2 does not hold of the code. With the external offset 5 at 120 BPM on a track of 10
  seconds the interval is 0.5; every sum of the run is an exact double, so the addition
  of doubles is the addition. The returned \<open>offset\<close> is the estimate before the
  normalisation, 5000 milliseconds, and 5 is not below the interval 0.5. The grid itself
  starts at 0.5 seconds: the first beat and the first downbeat are 500 milliseconds in,
  not the 5000 that the field, "ms to first downbeat", reports. (The second loop tests
  \<open>t > idealInterval\<close>, so the normalised start stops at the interval, not below it.)
\<close>

theorem getLockedGrid_forced_offset_5:
  "map_option (\<lambda>g. (offset g, hd (beats g), hd (downbeats g),
                     0 \<le> offset g / 1000 \<and> offset g / 1000 < 60 / 120))
     (getLockedGrid (+) [] 120 10 5) = Some (5000, 1 / 2, 1 / 2, False)"
  by (simp add: getLockedGrid_def averageOffset_def normalizePhase_def Let_def
        normalizeUp.simps normalizeDown.simps gridLoop.simps)

text \<open>
  The loops follow the source where its doubles stall: when the addition returns the
  time unchanged, as the addition of doubles does for \<open>1e17\<close> and the step \<open>0.5\<close>, a
  normalisation loop whose test holds does not return.
\<close>

lemma normalizeDown_absorbed:
  "normalizeDown fadd i t = Some r \<Longrightarrow> fadd = (\<lambda>x y. x) \<longrightarrow> \<not> i < t"
proof (rule normalizeDown.raw_induct
         [where P = "\<lambda>fadd i t r. fadd = (\<lambda>x y. x) \<longrightarrow> \<not> i < t"])
  fix f :: "(real \<Rightarrow> real \<Rightarrow> real) \<Rightarrow> real \<Rightarrow> real \<Rightarrow> real option" and fa ii tt rr
  assume ih: "\<And>a b c y. f a b c = Some y \<Longrightarrow> a = (\<lambda>x y. x) \<longrightarrow> \<not> b < c"
    and st: "(if ii < tt then f fa ii (fa tt (- ii)) else Some tt) = Some rr"
  show "fa = (\<lambda>x y. x) \<longrightarrow> \<not> ii < tt"
  proof (intro impI notI)
    assume a: "fa = (\<lambda>x y. x)" and gt: "ii < tt"
    from st gt a have "f (\<lambda>x y. x) ii tt = Some rr" by simp
    from ih [OF this] gt show False by simp
  qed
qed

lemma normalizeDown_stalls: "i < t \<Longrightarrow> normalizeDown (\<lambda>x y. x) i t = None"
  using normalizeDown_absorbed [of "\<lambda>x y. x" i t]
  by (cases "normalizeDown (\<lambda>x y. x) i t") auto

lemma normalizeUp_absorbed:
  "normalizeUp fadd i t = Some r \<Longrightarrow> fadd = (\<lambda>x y. x) \<longrightarrow> \<not> t < 0"
proof (rule normalizeUp.raw_induct
         [where P = "\<lambda>fadd i t r. fadd = (\<lambda>x y. x) \<longrightarrow> \<not> t < 0"])
  fix f :: "(real \<Rightarrow> real \<Rightarrow> real) \<Rightarrow> real \<Rightarrow> real \<Rightarrow> real option" and fa ii tt rr
  assume ih: "\<And>a b c y. f a b c = Some y \<Longrightarrow> a = (\<lambda>x y. x) \<longrightarrow> \<not> c < 0"
    and st: "(if tt < 0 then f fa ii (fa tt ii) else Some tt) = Some rr"
  show "fa = (\<lambda>x y. x) \<longrightarrow> \<not> tt < 0"
  proof (intro impI notI)
    assume a: "fa = (\<lambda>x y. x)" and lt: "tt < 0"
    from st lt a have "f (\<lambda>x y. x) ii tt = Some rr" by simp
    from ih [OF this] lt show False by simp
  qed
qed

lemma normalizeUp_stalls: "t < 0 \<Longrightarrow> normalizeUp (\<lambda>x y. x) i t = None"
  using normalizeUp_absorbed [of "\<lambda>x y. x" i t]
  by (cases "normalizeUp (\<lambda>x y. x) i t") auto

text \<open>
  C5, as the code has it. With no onsets and no external offset, at 125 BPM on a track
  of 40 seconds, the grid has the offset 0, its first beat at 0, 84 beats (the beats
  \<open>k * 0.48\<close> for \<open>k\<close> from 0 to 83, the last one at 39.84) and 21 downbeats. The sums
  are taken exactly.
\<close>

theorem getLockedGrid_empty_125_40:
  "map_option
     (\<lambda>g. (offset g, hd (beats g), last (beats g), length (beats g), length (downbeats g)))
     (getLockedGrid (+) [] 125 40 (- 1)) = Some (0, 0, 996 / 25, 84, 21)"
  by (simp add: getLockedGrid_def averageOffset_def normalizePhase_def Let_def
        normalizeUp.simps normalizeDown.simps gridLoop.simps)

text \<open>C5 as it is claimed fails: the grid does not have 83 beats.\<close>

theorem getLockedGrid_empty_125_40_not_83:
  "map_option (\<lambda>g. hd (beats g) = 0 \<and> length (beats g) = 83 \<and> length (downbeats g) = 21)
     (getLockedGrid (+) [] 125 40 (- 1)) = Some False"
  by (simp add: getLockedGrid_def averageOffset_def normalizePhase_def Let_def
        normalizeUp.simps normalizeDown.simps gridLoop.simps)

section \<open>Properties of the time stretcher\<close>


lemma olaWindow_ok:
  assumes "\<forall>i\<in>set is. inRange inCh (inPos + int i) \<and> 0 \<le> outPos + int i \<and> outPos + int i < int n"
    and "length outCh = n"
  shows "\<exists>out'. olaWindow inCh inPos outPos is outCh = Inr out' \<and> length out' = n \<and>
           (\<forall>k<n. (\<forall>i\<in>set is. nat (outPos + int i) \<noteq> k) \<longrightarrow> out' ! k = outCh ! k)"
  using assms
proof (induction "is" arbitrary: outCh)
  case Nil
  then show ?case by simp
next
  case (Cons i "is")
  let ?u = "outCh[nat (outPos + int i) :=
             outCh ! nat (outPos + int i) + inCh ! nat (inPos + int i) * hanningWindow i]"
  have len: "length ?u = n" using Cons.prems(2) by simp
  have rest: "\<forall>j\<in>set is. inRange inCh (inPos + int j) \<and> 0 \<le> outPos + int j \<and> outPos + int j < int n"
    using Cons.prems(1) by simp
  from Cons.IH [OF rest len] obtain out' where
    o: "olaWindow inCh inPos outPos is ?u = Inr out'" "length out' = n"
       "\<forall>k<n. (\<forall>j\<in>set is. nat (outPos + int j) \<noteq> k) \<longrightarrow> out' ! k = ?u ! k"
    by blast
  have here: "inRange inCh (inPos + int i) \<and> inRange outCh (outPos + int i)"
    using Cons.prems by (simp add: inRange_def)
  have "olaWindow inCh inPos outPos (i # is) outCh = Inr out'"
    using here o(1) by simp
  moreover have "\<forall>k<n. (\<forall>j\<in>set (i # is). nat (outPos + int j) \<noteq> k) \<longrightarrow> out' ! k = outCh ! k"
    using o(3) by auto
  ultimately show ?case using o(2) by blast
qed

lemma olaChannels_ok:
  assumes "list_all (\<lambda>ch. length ch = L) ins"
    and "list_all (\<lambda>ch. length ch = n) outs"
    and "0 \<le> inPos" and "inPos + int winSize \<le> int L"
    and "0 \<le> outPos" and "outPos + int winSize \<le> int n"
  shows "\<exists>outs'. olaChannels ins inPos outPos outs = Inr outs' \<and> length outs' = length outs \<and>
           list_all (\<lambda>ch. length ch = n) outs' \<and>
           (\<forall>j<length outs. \<forall>k<n. int k < outPos \<or> outPos + int winSize \<le> int k
               \<longrightarrow> outs' ! j ! k = outs ! j ! k)"
  using assms
proof (induction ins inPos outPos outs rule: olaChannels.induct)
  case (1 inCh ins inPos outPos outCh outs)
  have w: "\<forall>i\<in>set [0..<winSize]. inRange inCh (inPos + int i) \<and> 0 \<le> outPos + int i
             \<and> outPos + int i < int n"
    using "1.prems" by (auto simp: inRange_def)
  have lo: "length outCh = n" using "1.prems"(2) by simp
  from olaWindow_ok [OF w lo] obtain o' where
    o: "olaWindow inCh inPos outPos [0..<winSize] outCh = Inr o'" "length o' = n"
       "\<forall>k<n. (\<forall>i\<in>set [0..<winSize]. nat (outPos + int i) \<noteq> k) \<longrightarrow> o' ! k = outCh ! k"
    by blast
  have keep: "o' ! k = outCh ! k" if "k < n" "int k < outPos \<or> outPos + int winSize \<le> int k" for k
  proof -
    have "\<forall>i\<in>set [0..<winSize]. nat (outPos + int i) \<noteq> k"
      using that(2) "1.prems"(5) by auto
    with o(3) that(1) show ?thesis by blast
  qed
  have "list_all (\<lambda>ch. length ch = L) ins" "list_all (\<lambda>ch. length ch = n) outs"
    using "1.prems" by simp_all
  from "1.IH" [OF o(1) this "1.prems"(3-6)] obtain outs' where
    r: "olaChannels ins inPos outPos outs = Inr outs'" "length outs' = length outs"
       "list_all (\<lambda>ch. length ch = n) outs'"
       "\<forall>j<length outs. \<forall>k<n. int k < outPos \<or> outPos + int winSize \<le> int k
               \<longrightarrow> outs' ! j ! k = outs ! j ! k"
    by blast
  have res: "olaChannels (inCh # ins) inPos outPos (outCh # outs) = Inr (o' # outs')"
    using o(1) r(1) by simp
  have "(o' # outs') ! j ! k = (outCh # outs) ! j ! k"
    if "j < length (outCh # outs)" "k < n" "int k < outPos \<or> outPos + int winSize \<le> int k" for j k
    using that keep r(4) by (cases j) auto
  then show ?case
    using res o(2) r(2,3) by simp
qed simp_all

lemma olaLoop_ok:
  assumes "list_all (\<lambda>ch. length ch = L) ins"
    and "list_all (\<lambda>ch. length ch = nat newLength \<and> (0 < newLength \<longrightarrow> ch ! (nat newLength - 1) = 0)) outs"
    and "0 \<le> inPos" and "0 \<le> outPos" and "0 \<le> anaHop"
  shows "\<exists>outs'. olaLoop ins (int L) newLength anaHop outs outPos inPos = Inr outs' \<and>
           length outs' = length outs \<and>
           list_all (\<lambda>ch. length ch = nat newLength \<and> (0 < newLength \<longrightarrow> ch ! (nat newLength - 1) = 0)) outs'"
  using assms
proof (induction ins "int L" newLength anaHop outs outPos inPos rule: olaLoop.induct)
  case (1 inputData newLength anaHop outputData outPos inPos)
  show ?case
  proof (cases "outPos < newLength - int winSize \<and> inPos < int L - int winSize")
    case False
    then show ?thesis using "1.prems"(2) by (subst olaLoop.simps) auto
  next
    case True
    let ?n = "nat newLength"
    have lens: "list_all (\<lambda>ch. length ch = ?n) outputData"
      using "1.prems"(2) by (simp add: list_all_iff)
    have b1: "inPos + int winSize \<le> int L" using True by simp
    have b2: "outPos + int winSize \<le> int ?n" using True by simp
    from olaChannels_ok [OF "1.prems"(1) lens "1.prems"(3) b1 "1.prems"(4) b2]
    obtain outs' where
      c: "olaChannels inputData inPos outPos outputData = Inr outs'"
         "length outs' = length outputData"
         "list_all (\<lambda>ch. length ch = ?n) outs'"
         "\<forall>j<length outputData. \<forall>k<?n. int k < outPos \<or> outPos + int winSize \<le> int k
               \<longrightarrow> outs' ! j ! k = outputData ! j ! k"
      by blast
    have inv: "list_all (\<lambda>ch. length ch = ?n \<and> (0 < newLength \<longrightarrow> ch ! (?n - 1) = 0)) outs'"
      unfolding list_all_length
    proof (intro allI impI conjI)
      fix j assume j: "j < length outs'"
      show "length (outs' ! j) = ?n"
        using c(3) j by (simp add: list_all_length)
      assume pos: "0 < newLength"
      have "outPos + int winSize \<le> int (?n - 1)" using True pos by linarith
      moreover have "?n - 1 < ?n" using pos by simp
      ultimately have "outs' ! j ! (?n - 1) = outputData ! j ! (?n - 1)"
        using c(4) j c(2) by simp
      also have "\<dots> = 0"
        using "1.prems"(2) j c(2) pos by (simp add: list_all_length)
      finally show "outs' ! j ! (?n - 1) = 0" .
    qed
    have p1: "0 \<le> inPos + anaHop" using "1.prems" by simp
    have p2: "0 \<le> outPos + int hopSize" using "1.prems" by simp
    from "1.hyps" [OF True c(1) "1.prems"(1) inv p1 p2 "1.prems"(5)]
    obtain r where r: "olaLoop inputData (int L) newLength anaHop outs' (outPos + int hopSize) (inPos + anaHop) = Inr r"
       "length r = length outs'"
       "list_all (\<lambda>ch. length ch = ?n \<and> (0 < newLength \<longrightarrow> ch ! (?n - 1) = 0)) r"
      by blast
    have "olaLoop inputData (int L) newLength anaHop outputData outPos inPos = Inr r"
      using True c(1) r(1) by (subst olaLoop.simps) simp
    then show ?thesis using r c(2) by simp
  qed
qed



lemma olaWindow_value:
  assumes "distinct is"
    and "\<forall>i\<in>set is. inRange inCh (inPos + int i) \<and> 0 \<le> outPos + int i \<and> outPos + int i < int n"
    and "length outCh = n"
    and "olaWindow inCh inPos outPos is outCh = Inr out'"
  shows "\<forall>i\<in>set is. out' ! nat (outPos + int i) =
            outCh ! nat (outPos + int i) + inCh ! nat (inPos + int i) * hanningWindow i"
  using assms
proof (induction "is" arbitrary: outCh)
  case Nil
  then show ?case by simp
next
  case (Cons i "is")
  let ?u = "outCh[nat (outPos + int i) :=
             outCh ! nat (outPos + int i) + inCh ! nat (inPos + int i) * hanningWindow i]"
  have len: "length ?u = n" using Cons.prems(3) by simp
  have rest: "\<forall>j\<in>set is. inRange inCh (inPos + int j) \<and> 0 \<le> outPos + int j \<and> outPos + int j < int n"
    using Cons.prems(2) by simp
  have here: "inRange inCh (inPos + int i) \<and> inRange outCh (outPos + int i)"
    using Cons.prems by (simp add: inRange_def)
  have run: "olaWindow inCh inPos outPos is ?u = Inr out'"
    using Cons.prems(4) here by simp
  have d: "distinct is" "i \<notin> set is" using Cons.prems(1) by simp_all
  have ih: "\<forall>j\<in>set is. out' ! nat (outPos + int j) =
            ?u ! nat (outPos + int j) + inCh ! nat (inPos + int j) * hanningWindow j"
    using Cons.IH [OF d(1) rest len run] .
  have ii: "nat (outPos + int i) < n" "0 \<le> outPos + int i" using Cons.prems(2) by auto
  have other: "nat (outPos + int j) \<noteq> nat (outPos + int i)" if "j \<in> set is" for j
  proof -
    have "j \<noteq> i" using that d(2) by auto
    moreover have "0 \<le> outPos + int j" using rest that by blast
    ultimately show ?thesis using ii(2) by auto
  qed
  from olaWindow_ok [OF rest len] run have
    keep: "\<forall>k<n. (\<forall>j\<in>set is. nat (outPos + int j) \<noteq> k) \<longrightarrow> out' ! k = ?u ! k"
    by auto
  have "out' ! nat (outPos + int i) = ?u ! nat (outPos + int i)"
    using keep ii(1) other by metis
  then have first: "out' ! nat (outPos + int i) =
      outCh ! nat (outPos + int i) + inCh ! nat (inPos + int i) * hanningWindow i"
    using ii(1) Cons.prems(3) by simp
  have "out' ! nat (outPos + int j) =
            outCh ! nat (outPos + int j) + inCh ! nat (inPos + int j) * hanningWindow j"
    if "j \<in> set is" for j
    using ih that other [OF that] by simp
  with first show ?case by simp
qed

lemma process_stretch:
  assumes "wf_buffer b" and "0 < r" and "1 / 1000 \<le> \<bar>r - 1\<bar>"
  shows "\<exists>outs. olaLoop (channelData b) (int (buf_length b)) \<lfloor>real (buf_length b) / r\<rfloor>
                   \<lfloor>real hopSize * r\<rfloor>
                   (replicate (numberOfChannels b) (replicate (nat \<lfloor>real (buf_length b) / r\<rfloor>) 0)) 0 0
                 = Inr outs \<and>
           length outs = numberOfChannels b \<and>
           list_all (\<lambda>ch. length ch = nat \<lfloor>real (buf_length b) / r\<rfloor> \<and>
                          (0 < \<lfloor>real (buf_length b) / r\<rfloor>
                             \<longrightarrow> ch ! (nat \<lfloor>real (buf_length b) / r\<rfloor> - 1) = 0)) outs"
proof -
  let ?n = "\<lfloor>real (buf_length b) / r\<rfloor>"
  have ins: "list_all (\<lambda>ch. length ch = buf_length b) (channelData b)"
    using assms(1) by (simp add: wf_buffer_def)
  have zero: "list_all (\<lambda>ch. length ch = nat ?n \<and> (0 < ?n \<longrightarrow> ch ! (nat ?n - 1) = 0))
                (replicate (numberOfChannels b) (replicate (nat ?n) 0))"
    by (simp add: list_all_length)
  have hop: "0 \<le> \<lfloor>real hopSize * r\<rfloor>" using assms(2) by simp
  from olaLoop_ok [OF ins zero _ _ hop, of 0 0] show ?thesis by simp
qed




text \<open>
  C10, as the code has it. For every well-formed buffer and every speed \<open>r > 0\<close> that
  is at least 0.001 away from 1, no read of an input channel and no write of an output
  channel in the overlap-add loop is out of range. When the speed is not above the
  length of the buffer, the stretcher returns, every output channel has
  \<open>floor (length / r)\<close> samples, and the last sample of every output channel is left
  at zero. (The zero tail can be as short as that one sample.)
\<close>

theorem process_in_bounds:
  assumes "wf_buffer b" and "0 < r" and "1 / 1000 \<le> \<bar>r - 1\<bar>"
  shows "process b r \<noteq> Inl IndexOutOfRange \<and>
         (r \<le> real (buf_length b) \<longrightarrow>
            (\<exists>out. process b r = Inr out \<and>
               list_all (\<lambda>ch. length ch = nat \<lfloor>real (buf_length b) / r\<rfloor> \<and> last ch = 0)
                 (channelData out)))"
proof -
  let ?n = "\<lfloor>real (buf_length b) / r\<rfloor>"
  obtain outs where o: "olaLoop (channelData b) (int (buf_length b)) ?n \<lfloor>real hopSize * r\<rfloor>
                   (replicate (numberOfChannels b) (replicate (nat ?n) 0)) 0 0 = Inr outs"
      "length outs = numberOfChannels b"
      "list_all (\<lambda>ch. length ch = nat ?n \<and> (0 < ?n \<longrightarrow> ch ! (nat ?n - 1) = 0)) outs"
    using process_stretch [OF assms(1-3)] by blast
  have fast: "\<not> \<bar>r - 1\<bar> < 1 / 1000" using assms(3) by simp
  have first: "process b r \<noteq> Inl IndexOutOfRange"
    using o(1) fast assms(2)
    by (simp add: process_def Let_def createBuffer_def split: sum.splits)
  have second: "\<exists>out. process b r = Inr out \<and>
               list_all (\<lambda>ch. length ch = nat ?n \<and> last ch = 0) (channelData out)"
    if le: "r \<le> real (buf_length b)"
  proof -
    have one: "1 \<le> real (buf_length b) / r" using assms(2) le by simp
    then have n: "0 < ?n" by linarith
    have nc: "0 < numberOfChannels b" using assms(1) by (simp add: wf_buffer_def)
    have "length ch = nat ?n \<and> last ch = 0" if "ch \<in> set outs" for ch
    proof -
      have l: "length ch = nat ?n" and z: "ch ! (nat ?n - 1) = 0"
        using o(3) that n by (auto simp: list_all_iff)
      have "ch \<noteq> []" using l n by auto
      then show ?thesis using l z by (simp add: last_conv_nth)
    qed
    then have "list_all (\<lambda>ch. length ch = nat ?n \<and> last ch = 0) outs"
      by (simp add: list_all_iff)
    moreover have "\<not> real (buf_length b) / r < 0" using one by linarith
    ultimately show ?thesis
      using o(1,2) n nc fast assms(2)
      by (simp add: process_def Let_def createBuffer_def numberOfChannels_def)
  qed
  show ?thesis using first second by blast
qed

text \<open>The statement of C10 for the buffer of 10000 ones at speed 2.\<close>

theorem process_in_bounds_witness:
  "wf_buffer onesBuffer \<and> (0::real) < 2 \<and> 1 / 1000 \<le> \<bar>(2::real) - 1\<bar> \<and>
   process onesBuffer 2 \<noteq> Inl IndexOutOfRange \<and>
   2 \<le> real (buf_length onesBuffer) \<and>
   (\<exists>out. process onesBuffer 2 = Inr out \<and>
      list_all (\<lambda>ch. length ch = nat \<lfloor>real (buf_length onesBuffer) / 2\<rfloor> \<and> last ch = 0)
        (channelData out))"
proof -
  have h: "wf_buffer onesBuffer" "(0::real) < 2" "1 / 1000 \<le> \<bar>(2::real) - 1\<bar>"
    by (simp_all add: wf_buffer_def onesBuffer_def numberOfChannels_def)
  have le: "2 \<le> real (buf_length onesBuffer)"
    by (simp add: onesBuffer_def)
  show ?thesis
    using h le process_in_bounds [OF h] by blast
qed

lemma hanning_2000: "hanningWindow 2000 \<noteq> 0"
proof -
  have "cos (2 * pi * 2000 / 4095) < cos 0"
    by (rule cos_monotone_0_pi) (simp_all add: field_simps)
  then show ?thesis by (simp add: hanningWindow_def winSize_def)
qed

lemma stretch_onesBuffer:
  "\<exists>out. process onesBuffer 2 = Inr out \<and> length (channelData out) = 1 \<and>
         length (channelData out ! 0) = 5000 \<and> channelData out ! 0 ! 2000 = hanningWindow 2000"
proof -
  let ?in = "replicate 10000 (1::real)"
  let ?z = "replicate 5000 (0::real)"
  have rng: "\<forall>i\<in>set [0..<winSize]. inRange ?in (0 + int i) \<and> 0 \<le> 0 + int i \<and> 0 + int i < int 5000"
    by (auto simp: inRange_def winSize_def)
  obtain o' where w: "olaWindow ?in 0 0 [0..<winSize] ?z = Inr o'" "length o' = 5000"
    using olaWindow_ok [OF rng, of ?z] by auto
  have "\<forall>i\<in>set [0..<winSize]. o' ! nat (0 + int i) =
            ?z ! nat (0 + int i) + ?in ! nat (0 + int i) * hanningWindow i"
    by (rule olaWindow_value [OF _ rng _ w(1)]) simp_all
  then have "o' ! nat (0 + int 2000) = ?z ! nat (0 + int 2000) + ?in ! nat (0 + int 2000) * hanningWindow 2000"
    by (simp add: winSize_def)
  then have v: "o' ! 2000 = hanningWindow 2000" by simp
  have ch: "olaChannels [?in] 0 0 [?z] = Inr [o']"
    using w(1) by simp
  have g1: "(0::int) < 5000 - int winSize \<and> (0::int) < 10000 - int winSize"
    by (simp add: winSize_def)
  have g2: "\<not> (0 + int hopSize < 5000 - int winSize \<and> (0::int) + 4096 < 10000 - int winSize)"
    by (simp add: winSize_def hopSize_def overlap_def)
  have step2: "olaLoop [?in] 10000 5000 4096 [o'] (0 + int hopSize) (0 + 4096) = Inr [o']"
    using g2 by (subst olaLoop.simps) simp
  have loop: "olaLoop [?in] 10000 5000 4096 [?z] 0 0 = Inr [o']"
    using g1 ch step2 by (subst olaLoop.simps) simp
  have "process onesBuffer 2 = Inr \<lparr>sampleRate = 44100, buf_length = 5000, channelData = [o']\<rparr>"
    using loop by (simp add: process_def onesBuffer_def Let_def createBuffer_def numberOfChannels_def hopSize_def winSize_def overlap_def)
  then show ?thesis using w(2) v by simp
qed

text \<open>
  C10 as it is claimed fails: stretching 10000 ones at speed 2 gives 5000 samples, the
  loop runs once and writes the positions 0 to 4095; position 2000 is among the
  last 4096 and holds \<open>hanningWindow 2000\<close>, which is not zero.
\<close>

theorem process_tail_not_zero: "map_sum id tailZero (process onesBuffer 2) = Inr False"
proof -
  obtain out where o: "process onesBuffer 2 = Inr out" "length (channelData out) = 1"
      "length (channelData out ! 0) = 5000" "channelData out ! 0 ! 2000 = hanningWindow 2000"
    using stretch_onesBuffer by blast
  obtain ch where ch: "channelData out = [ch]"
    using o(2) by (cases "channelData out") auto
  have "2000 \<in> set [length ch - winSize..<length ch]"
    using o(3) ch by (simp add: winSize_def)
  moreover have "ch ! 2000 \<noteq> 0" using o(4) ch hanning_2000 by simp
  ultimately have "\<not> list_all (\<lambda>k. ch ! k = 0) [length ch - winSize..<length ch]"
    unfolding list_all_iff by blast
  then show ?thesis using o(1) ch by (simp add: tailZero_def)
qed

section \<open>Properties of the timeline\<close>

lemma timelineLoop_Cons:
  "\<exists>event events final.
     timelineLoop st rnd i cursor (p # rest) = (event # events, final) \<and>
     startTime event = cursor \<and>
     timelineLoop st rnd (i + 1)
       (if rest \<noteq> [] then
          cursor + (bufferOffsetEnd event - bufferOffsetStart event - overlapTime event)
        else cursor + (bufferOffsetEnd event - bufferOffsetStart event)) rest = (events, final)"
  by (simp add: Let_def split: prod.splits)

declare timelineLoop.simps [simp del]

lemma timelineLoop_length:
  "timelineLoop st rnd i cursor tracks = (events, final) \<Longrightarrow> length events = length tracks"
proof (induction tracks arbitrary: i cursor events final)
  case Nil
  then show ?case by (simp add: timelineLoop.simps)
next
  case (Cons p rest)
  obtain event events' final' where
    e: "timelineLoop st rnd i cursor (p # rest) = (event # events', final')"
    and r: "timelineLoop st rnd (i + 1)
       (if rest \<noteq> [] then
          cursor + (bufferOffsetEnd event - bufferOffsetStart event - overlapTime event)
        else cursor + (bufferOffsetEnd event - bufferOffsetStart event)) rest = (events', final')"
    using timelineLoop_Cons [of st rnd i cursor p rest] by blast
  from Cons.IH [OF r] have "length events' = length rest" .
  with e Cons.prems show ?case by simp
qed

text \<open>
  C7. In the timeline that \<open>renderMix\<close> builds (from any track index and cursor on,
  for any style and any random draws), every event but the last is followed by an event
  whose start time is this event's start time plus its duration
  \<open>bufferOffsetEnd - bufferOffsetStart\<close> minus its overlap time.
\<close>

theorem timeline_overlap:
  assumes "timelineLoop st rnd i cursor tracks = (events, final)"
    and "Suc j < length events"
  shows "startTime (events ! Suc j) =
           startTime (events ! j)
             + (bufferOffsetEnd (events ! j) - bufferOffsetStart (events ! j))
             - overlapTime (events ! j)"
  using assms
proof (induction tracks arbitrary: i cursor events final j)
  case Nil
  then show ?case by (simp add: timelineLoop.simps)
next
  case (Cons p rest)
  obtain event events' final' where
    e: "timelineLoop st rnd i cursor (p # rest) = (event # events', final')"
    and s: "startTime event = cursor"
    and r: "timelineLoop st rnd (i + 1)
       (if rest \<noteq> [] then
          cursor + (bufferOffsetEnd event - bufferOffsetStart event - overlapTime event)
        else cursor + (bufferOffsetEnd event - bufferOffsetStart event)) rest = (events', final')"
    using timelineLoop_Cons [of st rnd i cursor p rest] by blast
  have ev: "events = event # events'" using e Cons.prems(1) by simp
  have len: "length events' = length rest" using timelineLoop_length [OF r] .
  show ?case
  proof (cases j)
    case 0
    have ne: "rest \<noteq> []" using Cons.prems(2) ev len by auto
    then obtain q rest' where q: "rest = q # rest'" by (cases rest) auto
    obtain event2 events2 final2 where
      e2: "timelineLoop st rnd (i + 1)
             (cursor + (bufferOffsetEnd event - bufferOffsetStart event - overlapTime event))
             (q # rest') = (event2 # events2, final2)"
      and s2: "startTime event2 =
             cursor + (bufferOffsetEnd event - bufferOffsetStart event - overlapTime event)"
      using timelineLoop_Cons [of st rnd "i + 1" _ q rest'] by blast
    have "events' = event2 # events2" using r e2 q by simp
    then show ?thesis using 0 ev s s2 by simp
  next
    case (Suc k)
    have "Suc k < length events'" using Cons.prems(2) ev Suc by simp
    from Cons.IH [OF r this] show ?thesis using ev Suc by simp
  qed
qed

lemma exampleEvents_start:
  "length exampleEvents = 2 \<and> startTime (exampleEvents ! 0) = 0 \<and>
   technique (exampleEvents ! 0) = LONG_BLEND \<and> overlapTime (exampleEvents ! 0) = 3072 / 25 \<and>
   bufferOffsetEnd (exampleEvents ! 0) = 6912 / 25 \<and> startTime (exampleEvents ! Suc 0) = 768 / 5"
  by (simp add: exampleEvents_def exampleProcessed_def trackA_def trackB_def timelineLoop.simps
        Let_def chooseTechnique_def jsOr_def BAR_DURATION_def BEAT_DURATION_def TARGET_BPM_def)

text \<open>
  The statement of C7 for the two example tracks in the style \<open>CAROLA\<close>: the first
  transition is a long blend of 64 bars (122.88 seconds), the first event lasts 276.48
  seconds, and the second event starts at 153.6 seconds.
\<close>

theorem timeline_overlap_witness:
  "timelineLoop CAROLA (\<lambda>i. 0) 0 0 exampleProcessed
     = (exampleEvents, snd (timelineLoop CAROLA (\<lambda>i. 0) 0 0 exampleProcessed)) \<and>
   Suc 0 < length exampleEvents \<and>
   startTime (exampleEvents ! Suc 0) =
     startTime (exampleEvents ! 0)
       + (bufferOffsetEnd (exampleEvents ! 0) - bufferOffsetStart (exampleEvents ! 0))
       - overlapTime (exampleEvents ! 0) \<and>
   startTime (exampleEvents ! Suc 0) = 768 / 5"
proof -
  have h1: "timelineLoop CAROLA (\<lambda>i. 0) 0 0 exampleProcessed
     = (exampleEvents, snd (timelineLoop CAROLA (\<lambda>i. 0) 0 0 exampleProcessed))"
    by (simp add: exampleEvents_def)
  have h2: "Suc 0 < length exampleEvents"
    using exampleEvents_start by simp
  show ?thesis
    using h1 h2 timeline_overlap [OF h1 h2] exampleEvents_start by simp
qed

section \<open>Properties of renderMix\<close>

text \<open>
  C9. When no track has the status \<open>READY\<close> (for example because every track failed
  to decode and was marked \<open>ERROR\<close> by the analysis), \<open>renderMix\<close> ends with the error
  "No valid tracks to mix." and has no result, so no WAV is produced; this holds for
  every decoder, random source, renderer and configuration.
\<close>

theorem renderMix_no_ready_track:
  assumes "list_all (\<lambda>t. status t \<noteq> READY) tracks"
  shows "renderMix loadBuffer rnd render tracks config = Some (Inl NoValidTracks)"
proof -
  have "filter (\<lambda>t. status t = READY \<and> originalBpm t > 0) tracks = []"
    using assms by (auto simp: filter_empty_conv list_all_iff)
  then show ?thesis by (simp add: renderMix_def)
qed

text \<open>The statement of C9 for the two example tracks after a failed analysis.\<close>

theorem renderMix_no_ready_track_witness:
  "list_all (\<lambda>t. status t \<noteq> READY) failedTracks \<and>
   renderMix (\<lambda>f. None) (\<lambda>i. 0) (\<lambda>events total. silentSecond) failedTracks exampleConfig
     = Some (Inl NoValidTracks)"
proof -
  have h: "list_all (\<lambda>t. status t \<noteq> READY) failedTracks"
    by (simp add: failedTracks_def trackA_def trackB_def)
  show ?thesis
    using h renderMix_no_ready_track [OF h] by simp
qed

section \<open>Properties of the WAV encoder\<close>

text \<open>
  C1 does not hold of the code. The clamped sample \<open>-1/4\<close> is negative, so the claimed
  value is \<open>-1/4 * 32768 = -8192\<close>. The code tests \<open>0.5 + sample < 0\<close>, which is false
  for \<open>-1/4\<close>, scales by 32767 and truncates \<open>-8191.75\<close> to \<open>-8191\<close>: the bytes written
  are \<open>01 E0\<close>. Only samples below \<open>-1/2\<close> are scaled by 32768.
\<close>

theorem sampleToInt_quarter:
  "sampleToInt (- 1 / 4) = - 8191 \<and> toInt32 (- 1 / 4 * 32768) = - 8192 \<and>
   bytesLE 2 (sampleToInt (- 1 / 4)) = [0x01, 0xE0]"
  by (simp add: sampleToInt_def toInt32_def bytesLE_def Let_def upt_rec)

lemma length_bytesLE: "length (bytesLE k d) = k"
  by (simp add: bytesLE_def)

lemma setInt16_ok:
  assumes "pos dv + 2 \<le> length (view dv)"
  shows "\<exists>dv'. setInt16 d dv = Inr dv' \<and> pos dv' = pos dv + 2 \<and>
           length (view dv') = length (view dv) \<and>
           take (pos dv) (view dv') = take (pos dv) (view dv)"
  using assms by (simp add: setInt16_def writeBytes_def length_bytesLE)

lemma take_take_le:
  assumes "take q xs = take q ys" and "p \<le> q"
  shows "take p xs = take p ys"
proof -
  have "take p xs = take p (take q xs)" using assms(2) by (simp add: min_def)
  also have "\<dots> = take p (take q ys)" using assms(1) by simp
  also have "\<dots> = take p ys" using assms(2) by (simp add: min_def)
  finally show ?thesis .
qed

lemma wavFrame_ok:
  assumes "pos dv + 2 * length is \<le> length (view dv)"
  shows "\<exists>dv'. wavFrame channels off is dv = Inr dv' \<and> pos dv' = pos dv + 2 * length is \<and>
           length (view dv') = length (view dv) \<and>
           take (pos dv) (view dv') = take (pos dv) (view dv)"
  using assms
proof (induction "is" arbitrary: dv)
  case Nil
  then show ?case by simp
next
  case (Cons i "is")
  have "pos dv + 2 \<le> length (view dv)" using Cons.prems by simp
  from setInt16_ok [OF this, of "readSample (channels ! i) off"] obtain d1 where
    d1: "setInt16 (readSample (channels ! i) off) dv = Inr d1" "pos d1 = pos dv + 2"
        "length (view d1) = length (view dv)" "take (pos dv) (view d1) = take (pos dv) (view dv)"
    by blast
  have "pos d1 + 2 * length is \<le> length (view d1)" using Cons.prems d1 by simp
  from Cons.IH [OF this] obtain d2 where
    d2: "wavFrame channels off is d1 = Inr d2" "pos d2 = pos d1 + 2 * length is"
        "length (view d2) = length (view d1)" "take (pos d1) (view d2) = take (pos d1) (view d1)"
    by blast
  have "take (pos dv) (view d2) = take (pos dv) (view d1)"
    using take_take_le [OF d2(4)] d1(2) by simp
  then have "take (pos dv) (view d2) = take (pos dv) (view dv)" using d1(4) by simp
  then show ?case using d1 d2 by simp
qed

text \<open>
  The sample loop ends when the bytes after the header are a whole number \<open>m\<close> of
  frames, as they are in \<open>bufferToWave\<close>. It keeps the length of the buffer and every
  byte before the position it starts from.
\<close>

lemma wavLoop_ok:
  assumes "0 < numOfChan" and "length (view dv) = len" and "pos dv + 2 * numOfChan * m = len"
  shows "\<exists>bytes. wavLoop channels numOfChan len dv off = Some (Inr bytes) \<and> length bytes = len \<and>
           take (pos dv) bytes = take (pos dv) (view dv)"
  using assms(2,3)
proof (induction m arbitrary: dv off)
  case 0
  then show ?case by (subst wavLoop.simps) simp
next
  case (Suc m)
  have lt: "pos dv < len" using Suc.prems assms(1) by simp
  have fit: "pos dv + 2 * length [0..<numOfChan] \<le> length (view dv)"
    using Suc.prems by simp
  from wavFrame_ok [OF fit, of channels off] obtain d1 where
    d1: "wavFrame channels off [0..<numOfChan] dv = Inr d1" "pos d1 = pos dv + 2 * numOfChan"
        "length (view d1) = length (view dv)" "take (pos dv) (view d1) = take (pos dv) (view dv)"
    by auto
  have a: "length (view d1) = len" using d1(3) Suc.prems(1) by simp
  have b: "pos d1 + 2 * numOfChan * m = len" using d1(2) Suc.prems(2) by simp
  from Suc.IH [OF a b, of "off + 1"] obtain bytes where
    r: "wavLoop channels numOfChan len d1 (off + 1) = Some (Inr bytes)" "length bytes = len"
       "take (pos d1) bytes = take (pos d1) (view d1)"
    by blast
  have "wavLoop channels numOfChan len dv off = Some (Inr bytes)"
    using lt d1(1) r(1) by (subst wavLoop.simps) simp
  moreover have "take (pos dv) bytes = take (pos dv) (view d1)"
    using take_take_le [OF r(3)] d1(2) by simp
  ultimately show ?case using r(2) d1(4) by auto
qed

text \<open>The header of one second of stereo at 44100 Hz, written into 176444 zero bytes.\<close>

lemma wavHeader_second:
  "wavHeader 2 44100 176444 \<lparr>view = replicate 176444 0, pos = 0\<rparr>
     = Inr \<lparr>view =
              [0x52, 0x49, 0x46, 0x46, 0x34, 0xB1, 0x02, 0x00, 0x57, 0x41, 0x56, 0x45,
               0x66, 0x6D, 0x74, 0x20, 0x10, 0, 0, 0, 1, 0, 2, 0, 0x44, 0xAC, 0, 0,
               0x10, 0xB1, 0x02, 0, 4, 0, 16, 0, 0x64, 0x61, 0x74, 0x61, 0x10, 0xB1, 0x02, 0]
              @ replicate 176400 0,
            pos = 44\<rparr>"
  by (simp add: wavHeader_def setUint32_def setUint16_def writeBytes_def bytesLE_def upt_rec)

text \<open>
  C8. Encoding one second of stereo silence at 44100 Hz returns 176444 bytes; the
  first four are \<open>RIFF\<close>, the bytes 8 to 11 are \<open>WAVE\<close>, and the byte-rate field, the
  little-endian 32-bit number at offset 28, is 176400.
\<close>

theorem bufferToWave_silent_second:
  "\<exists>bytes. bufferToWave silentSecond 0 44100 = Some (Inr bytes) \<and>
      length bytes = 176444 \<and>
      take 4 bytes = map of_char ''RIFF'' \<and>
      take 4 (drop 8 bytes) = map of_char ''WAVE'' \<and>
      getUint32 bytes 28 = 176400"
proof -
  let ?hdr = "[0x52, 0x49, 0x46, 0x46, 0x34, 0xB1, 0x02, 0x00, 0x57, 0x41, 0x56, 0x45,
               0x66, 0x6D, 0x74, 0x20, 0x10, 0, 0, 0, 1, 0, 2, 0, 0x44, 0xAC, 0, 0,
               0x10, 0xB1, 0x02, 0, 4, 0, 16, 0, 0x64, 0x61, 0x74, 0x61, 0x10, 0xB1, 0x02, 0
               :: byte]"
  let ?dv = "\<lparr>view = ?hdr @ replicate 176400 0, pos = 44\<rparr>"
  have l: "length (view ?dv) = 176444" by simp
  have m: "pos ?dv + 2 * 2 * 44100 = (176444::nat)" by simp
  from wavLoop_ok [OF _ l m, of "channelData silentSecond" 0] obtain bytes where
    b: "wavLoop (channelData silentSecond) 2 176444 ?dv 0 = Some (Inr bytes)"
       "length bytes = 176444" "take 44 bytes = ?hdr"
    by auto
  have nc: "numberOfChannels silentSecond = 2" and sr: "sampleRate silentSecond = 44100"
    by (simp_all add: silentSecond_def numberOfChannels_def)
  have tot: "44100 * 2 * 2 + 44 = (176444::nat)" by simp
  have run: "bufferToWave silentSecond 0 44100 = Some (Inr bytes)"
    unfolding bufferToWave_def Let_def nc sr tot wavHeader_second
    by (simp only: sum.case b(1))
  have split: "bytes = ?hdr @ drop 44 bytes"
    using b(3) append_take_drop_id [of 44 bytes] by simp
  have riff: "take 4 bytes = map of_char ''RIFF''"
    by (subst split) simp
  have wave: "take 4 (drop 8 bytes) = map of_char ''WAVE''"
    by (subst split) simp
  have rate: "getUint32 bytes 28 = 176400"
    by (subst split) (simp add: getUint32_def nth_append)
  show ?thesis using run b(2) riff wave rate by blast
qed

section \<open>Properties of the tempo post-processing\<close>

lemma foldTempoFull_ok:
  assumes "\<not> jsLess (Num 320) b"
  shows "octaveCorrected (fst (foldTempoFull b c)) (snd (foldTempoFull b c))"
proof (cases b)
  case NaN
  then show ?thesis by (simp add: foldTempoFull_def octaveCorrected_def)
next
  case (Num x)
  with assms have "x \<le> 320" by simp
  then show ?thesis using Num
    by (auto simp: foldTempoFull_def octaveCorrected_def Let_def)
qed

lemma foldTempoLite_ok:
  assumes "\<not> jsLess (Num 320) b" and "\<not> jsLess b (Num 30)"
  shows "tempoInRange (foldTempoLite b)"
proof (cases b)
  case NaN
  then show ?thesis by (simp add: foldTempoLite_def)
next
  case (Num x)
  with assms have "x \<le> 320" "30 \<le> x" by simp_all
  then show ?thesis using Num
    by (auto simp: foldTempoLite_def Let_def)
qed

text \<open>
  C3, as the code has it. Let \<open>b\<close> be a tempo that is not above 320 (a number up to
  320, or not a number). In the full backend, when the consensus tempo before the
  folding is \<open>b\<close>, the tempo after it is between 60 and 160, or it is the fallback 125
  with the confidence exactly 0.1. In the reduced backend, when the detector returns
  \<open>b\<close> and \<open>b\<close> is not below 30, the tempo after the folding is between 60 and 160; so
  it is when the detector fails. (Each folding step is applied once.)
\<close>

theorem tempo_octave_correction:
  assumes "\<not> jsLess (Num 320) b"
  shows "(fst (consensusTempo e rc g) = b \<longrightarrow>
            octaveCorrected (fst (analyzeTrackTempo e rc g))
              (snd (snd (analyzeTrackTempo e rc g))))
       \<and> (\<not> jsLess b (Num 30) \<longrightarrow> tempoInRange (fst (analyzeLiteTempo (Some (b, off)))))
       \<and> tempoInRange (fst (analyzeLiteTempo None))"
proof (intro conjI impI)
  assume eq: "fst (consensusTempo e rc g) = b"
  obtain cb co cc where c: "consensusTempo e rc g = (cb, co, cc)"
    by (cases "consensusTempo e rc g") auto
  have "cb = b" using eq c by simp
  then have "octaveCorrected (fst (foldTempoFull cb cc)) (snd (foldTempoFull cb cc))"
    using foldTempoFull_ok [OF assms] by simp
  then show "octaveCorrected (fst (analyzeTrackTempo e rc g))
               (snd (snd (analyzeTrackTempo e rc g)))"
    using c by (auto simp: analyzeTrackTempo_def split: prod.splits)
next
  assume "\<not> jsLess b (Num 30)"
  from foldTempoLite_ok [OF assms this]
  show "tempoInRange (fst (analyzeLiteTempo (Some (b, off))))"
    by (simp add: analyzeLiteTempo_def)
next
  show "tempoInRange (fst (analyzeLiteTempo None))"
    by (simp add: analyzeLiteTempo_def foldTempoLite_def)
qed

text \<open>
  The statement of C3 for the tempo 200 from both estimators' side: the extractor
  reports 200 and the detector fails (full backend), the detector reports 200 (reduced
  backend). Both fold to 100.
\<close>

theorem tempo_octave_correction_witness:
  "\<not> jsLess (Num 320) (Num 200) \<and>
   fst (consensusTempo (Num 200) (Num 0.9) None) = Num 200 \<and>
   octaveCorrected (fst (analyzeTrackTempo (Num 200) (Num 0.9) None))
     (snd (snd (analyzeTrackTempo (Num 200) (Num 0.9) None))) \<and>
   \<not> jsLess (Num 200) (Num 30) \<and>
   tempoInRange (fst (analyzeLiteTempo (Some (Num 200, Num 0)))) \<and>
   tempoInRange (fst (analyzeLiteTempo None))"
  using tempo_octave_correction [of "Num 200" "Num 200" "Num 0.9" None "Num 0"]
  by (simp add: consensusTempo_def)

text \<open>
  C3 as it is claimed fails: the extractor reports 400 BPM with the confidence 0.9 and
  the detector fails. The tempo is halved once, to 200, which is above 160 and not the
  fallback; the confidence stays 0.9.
\<close>

theorem tempo_400_not_corrected:
  "analyzeTrackTempo (Num 400) (Num 0.9) None = (Num 200, Num (- 1), Num 0.9) \<and>
   \<not> octaveCorrected (fst (analyzeTrackTempo (Num 400) (Num 0.9) None))
       (snd (snd (analyzeTrackTempo (Num 400) (Num 0.9) None)))"
  by (simp add: analyzeTrackTempo_def consensusTempo_def foldTempoFull_def octaveCorrected_def)

text \<open>
  The reduced backend has no test against 60: a detector tempo of 20 comes out as 40,
  with the confidence 0.6.
\<close>

lemma analyzeLiteTempo_20:
  "analyzeLiteTempo (Some (Num 20, Num 0)) = (Num 40, Num 0, Num 0.6)"
  by (simp add: analyzeLiteTempo_def foldTempoLite_def)

section \<open>Properties of the cue points\<close>

text \<open>
  The second \<open>reduce\<close> starts from the loop start itself, which no downbeat is nearer
  to than itself: the snap returns the loop start unchanged.
\<close>

lemma snap_noop: "foldl (nearer x) x ds = x"
  by (induction ds) (simp_all add: nearer_def)

lemma endPointOf_bounds:
  assumes "0 < dur"
  shows "dur * 0.6 \<le> endPointOf dbs ot dur \<and> endPointOf dbs ot dur \<le> dur"
  using assms by (auto simp: endPointOf_def Let_def)

lemma endPointOf_8: "endPointOf dbs ot 8 = 36 / 5"
  by (simp add: endPointOf_def Let_def)

text \<open>
  C4, as the code has it. The cue points are ordered,
  \<open>0 \<le> start < loopRegion.start \<le> loopRegion.end \<le> end \<le> duration\<close>, for every
  duration above 20 seconds when the energy profile is empty, and, when it is not, for
  every duration above zero and every beat grid with a tempo above zero whose first
  downbeat \<open>d\<close> (0 without downbeats) is not negative and leaves room for the loop of
  16 beats before 60 per cent of the track: \<open>d + 960 / bpm < 0.6 * duration\<close>.
\<close>

theorem detectCuePoints_ordered:
  assumes "(low energy = [] \<and> 20 < dur) \<or>
           (low energy \<noteq> [] \<and> 0 < dur \<and> 0 < bpm g \<and> 0 \<le> firstDownbeat g \<and>
            firstDownbeat g + 960 / bpm g < dur * 0.6)"
  shows "cueOrdered (detectCuePoints g energy dur) dur"
proof (cases "low energy = []")
  case True
  with assms have "20 < dur" by simp
  with True show ?thesis
    by (simp add: detectCuePoints_def cueOrdered_def)
next
  case False
  let ?E = "endPointOf (downbeats g) (outroTimeOf (low energy) dur) dur"
  let ?s = "firstDownbeat g"
  have d: "0 < dur" using assms False by simp
  have b: "dur * 0.6 \<le> ?E" "?E \<le> dur"
    using endPointOf_bounds [OF d] by simp_all
  have h: "0 < bpm g" "0 \<le> ?s" "?s + 960 / bpm g < dur * 0.6"
    using assms False by simp_all
  have pos: "0 < 960 / bpm g" using h(1) by simp
  have gt: "?s < ?E - 960 / bpm g" using b(1) h(3) by linarith
  have lt: "?E - 960 / bpm g < ?E" using pos by linarith
  have res: "detectCuePoints g energy dur =
      \<lparr>cue_start = ?s, cue_end = ?E,
       loopRegion = \<lparr>loop_start = ?E - 960 / bpm g, loop_end = ?E\<rparr>\<rparr>"
    using False gt lt
    by (simp add: detectCuePoints_def Let_def snap_noop)
  show ?thesis
    unfolding res using h(2) gt lt b(2) by (simp add: cueOrdered_def)
qed

text \<open>
  The statement of C4 for the grid at 120 BPM and the flat profile on a track of 20
  seconds: \<open>0 + 960 / 120 = 8 < 12\<close>.
\<close>

theorem detectCuePoints_ordered_witness:
  "low flatEnergy \<noteq> [] \<and> (0::real) < 20 \<and> 0 < bpm shortGrid \<and>
   0 \<le> firstDownbeat shortGrid \<and>
   firstDownbeat shortGrid + 960 / bpm shortGrid < 20 * 0.6 \<and>
   cueOrdered (detectCuePoints shortGrid flatEnergy 20) 20"
proof -
  have h: "low flatEnergy \<noteq> []" "(0::real) < 20" "0 < bpm shortGrid"
    "0 \<le> firstDownbeat shortGrid" "firstDownbeat shortGrid + 960 / bpm shortGrid < 20 * 0.6"
    by (simp_all add: flatEnergy_def shortGrid_def firstDownbeat_def)
  then have "(low flatEnergy = [] \<and> (20::real) < 20) \<or>
           (low flatEnergy \<noteq> [] \<and> (0::real) < 20 \<and> 0 < bpm shortGrid \<and>
            0 \<le> firstDownbeat shortGrid \<and>
            firstDownbeat shortGrid + 960 / bpm shortGrid < 20 * 0.6)"
    by blast
  from detectCuePoints_ordered [OF this] h show ?thesis by blast
qed

lemma shortGrid_locked: "getLockedGrid (+) [] 120 8 (- 1) = Some shortGrid"
  by (simp add: getLockedGrid_def averageOffset_def normalizePhase_def Let_def
        normalizeUp.simps normalizeDown.simps gridLoop.simps shortGrid_def)

text \<open>
  C4 as it is claimed fails: on a track of 8 seconds at 120 BPM, with the grid that
  \<open>getLockedGrid\<close> builds for it and a flat energy profile of 200 buckets, the end point
  is \<open>0.9 * 8 = 7.2\<close>, the loop of 8 seconds would start at \<open>-0.8\<close> and is moved to
  \<open>max(0, 8 - 30) = 0\<close>, which is the start point: \<open>start < loopRegion.start\<close> fails.
\<close>

theorem detectCuePoints_short_track:
  "detectCuePoints shortGrid flatEnergy 8 =
     \<lparr>cue_start = 0, cue_end = 36 / 5, loopRegion = \<lparr>loop_start = 0, loop_end = 36 / 5\<rparr>\<rparr>
   \<and> \<not> cueOrdered (detectCuePoints shortGrid flatEnergy 8) 8"
proof -
  have "detectCuePoints shortGrid flatEnergy 8 =
     \<lparr>cue_start = 0, cue_end = 36 / 5, loopRegion = \<lparr>loop_start = 0, loop_end = 36 / 5\<rparr>\<rparr>"
    by (simp add: detectCuePoints_def Let_def nearer_def endPointOf_8 firstDownbeat_def
          shortGrid_def flatEnergy_def)
  then show ?thesis by (simp add: cueOrdered_def)
qed

end
